theory Spec2Isabelle
  imports Complex_Main
begin

section \<open>The FlyWing DenoiSeg example notebook\<close>

text \<open>
  The repository is one Jupyter notebook,
  \<^verbatim>\<open>examples/DenoiSeg_2D/FlyWing_DenoiSeg_Example.ipynb\<close>. Its code cells are modelled
  in the order in which they stand, as functions on an explicit world (the file system
  below the working directory and the trace of calls that leave the notebook). A Python
  exception is a value \<open>Inl e\<close>; it ends the run, as it ends "Run All" in a fresh kernel.
\<close>

subsection \<open>Data\<close>

datatype error =
    AssertionError
  | NameError string
  | IndexError
  | ZeroDivisionError
  | KeyError string
  | FileNotFoundError string
  | FileExistsError string
  | IsADirectoryError string
  | ValueError string
  | URLError string
  | BadZipFile string

datatype dtype = Float32 | Float64 | UInt8 | UInt16 | Object

text \<open>Of a numpy array the notebook itself only looks at the shape and sets the dtype.\<close>

record ndarray =
  shape :: "nat list"
  dtype :: dtype

text \<open>
  What a file holds: an \<^verbatim>\<open>.npz\<close> archive (its arrays by key, in the archive's order),
  a zip archive (its members by relative path) or something else.
\<close>

datatype blob =
    Npz "(string \<times> ndarray) list"
  | Zip "(string \<times> blob) list"
  | Raw

datatype entry = Dir | File blob

text \<open>Values of keyword arguments.\<close>

datatype pyval = PInt int | PFloat real | PBool bool | PList "pyval list"

text \<open>The five places where the notebook uses the model class of the library.\<close>

datatype model_call = Construct | Train | OptimizeThresholds | PredictLabelMasks | ExportTF

text \<open>
  Calls that leave the notebook. \<open>EPrint\<close> carries the format string of the source (the
  formatted values are not modelled), \<open>EPlot\<close> the name of the plotting function,
  \<open>EGetItem\<close> the file and the key read from it.
\<close>

datatype event =
    EImport string
  | EMkdir string
  | EPrint string
  | EUrlRetrieve string string
  | EExtractAll string string
  | ENpLoad string
  | EGetItem string string
  | EShuffle
  | EZeroOut real
  | EAugment
  | EOneHot
  | EPlot string
  | EConfig "(string \<times> pyval) list"
  | EModel model_call

record world =
  fs :: "string \<Rightarrow> entry option"
  trace :: "event list"

text \<open>
  What the notebook does not fix: the server behind the download links, the number of
  samples \<^verbatim>\<open>augment_data\<close> of the library returns for a given number of training images,
  and the rounding of Python's float arithmetic (\<^verbatim>\<open>a / b\<close> and \<^verbatim>\<open>a * b\<close> are the exact
  result, rounded to a double; \<open>rnd\<close> is that rounding on the reals).
\<close>

record env =
  network :: "string \<Rightarrow> blob option"
  augmented_samples :: "nat \<Rightarrow> nat"
  rnd :: "real \<Rightarrow> real"

text \<open>The two values the user sets in the notebook.\<close>

record params =
  noise_level :: string
  number_of_annotated_training_images :: real

subsection \<open>Sequencing\<close>

type_synonym 'a nb = "world \<Rightarrow> (error + 'a) \<times> world"

definition nb_return :: "'a \<Rightarrow> 'a nb" where
  "nb_return a w = (Inr a, w)"

definition nb_raise :: "error \<Rightarrow> 'a nb" where
  "nb_raise e w = (Inl e, w)"

definition nb_bind :: "'a nb \<Rightarrow> ('a \<Rightarrow> 'b nb) \<Rightarrow> 'b nb" where
  "nb_bind m f w = (case m w of (Inl e, w') \<Rightarrow> (Inl e, w') | (Inr a, w') \<Rightarrow> f a w')"

definition nb_then :: "unit nb \<Rightarrow> 'b nb \<Rightarrow> 'b nb" where
  "nb_then m k = nb_bind m (\<lambda>_. k)"

definition emit :: "event list \<Rightarrow> unit nb" where
  "emit es w = (Inr (), w\<lparr>trace := trace w @ es\<rparr>)"

definition nb_lift :: "error + 'a \<Rightarrow> 'a nb" where
  "nb_lift r w = (r, w)"

subsection \<open>Cell 1: imports\<close>

definition import_events :: "event list" where
  "import_events =
     [EImport ''warnings'', EImport ''numpy'', EImport ''matplotlib.pyplot'',
      EImport ''scipy.ndimage'', EImport ''denoiseg.models'',
      EImport ''denoiseg.utils.misc_utils'', EImport ''denoiseg.utils.seg_utils'',
      EImport ''denoiseg.utils.compute_precision_threshold'', EImport ''csbdeep.utils'',
      EImport ''urllib'', EImport ''os'', EImport ''zipfile'']"

definition cell_imports :: "unit nb" where
  "cell_imports = emit import_events"

subsection \<open>Cell 3: data folder, link selection, download and extraction\<close>

text \<open>
  \<^verbatim>\<open>if not os.path.isdir('./data'): os.mkdir('data')\<close>. Both paths name the entry
  \<open>''data''\<close> of the working directory; \<^verbatim>\<open>os.mkdir\<close> raises when the path exists and is
  no directory.
\<close>

definition mkdir_data :: "unit nb" where
  "mkdir_data w =
     (if fs w ''data'' = Some Dir then (Inr (), w)
      else if fs w ''data'' \<noteq> None then (Inl (FileExistsError ''data''), w)
      else (Inr (), w\<lparr>fs := (fs w)(''data'' \<mapsto> Dir), trace := trace w @ [EMkdir ''data'']\<rparr>))"

text \<open>
  The \<^verbatim>\<open>if/elif/else\<close> on \<^verbatim>\<open>noise_level\<close>. The result is the binding of the variable
  \<^verbatim>\<open>link\<close> after the statement: \<open>None\<close> when no branch assigned it.
\<close>

definition select_link :: "string \<Rightarrow> string option nb" where
  "select_link nl =
     (if nl = ''n0'' then
        nb_return (Some ''https://owncloud.mpi-cbg.de/index.php/s/liMinMlacVYnldB/download'')
      else if nl = ''n10'' then
        nb_return (Some ''https://owncloud.mpi-cbg.de/index.php/s/llTDhwvxgmDdQ3B/download'')
      else if nl = ''n20'' then
        nb_return (Some ''https://owncloud.mpi-cbg.de/index.php/s/s1XEtPnKTvR64aG/download'')
      else
        nb_then (emit [EPrint ''This noise level does not exist for this dataset.''])
                (nb_return None))"

definition zipPath :: "string \<Rightarrow> string" where
  "zipPath nl = ''data/Flywing_'' @ nl @ ''.zip''"

definition urlretrieve :: "env \<Rightarrow> string \<Rightarrow> string \<Rightarrow> unit nb" where
  "urlretrieve ev url path w =
     (case network ev url of
        None \<Rightarrow> (Inl (URLError url), w)
      | Some b \<Rightarrow>
          (Inr (), w\<lparr>fs := (fs w)(path \<mapsto> File b),
                     trace := trace w @ [EUrlRetrieve url path]\<rparr>))"

fun extract_members ::
  "string \<Rightarrow> (string \<times> blob) list \<Rightarrow> (string \<Rightarrow> entry option) \<Rightarrow> (string \<Rightarrow> entry option)"
where
  "extract_members dest [] f = f"
| "extract_members dest ((name, b) # ms) f =
     extract_members dest ms (f(dest @ ''/'' @ name \<mapsto> File b))"

text \<open>\<^verbatim>\<open>with zipfile.ZipFile(zipPath, 'r') as zip_ref: zip_ref.extractall("data")\<close>\<close>

definition extractall :: "string \<Rightarrow> string \<Rightarrow> unit nb" where
  "extractall path dest w =
     (case fs w path of
        Some (File (Zip ms)) \<Rightarrow>
          (Inr (), w\<lparr>fs := extract_members dest ms (fs w),
                     trace := trace w @ [EExtractAll path dest]\<rparr>)
      | _ \<Rightarrow> (Inl (BadZipFile path), w))"

text \<open>
  \<^verbatim>\<open>if not os.path.exists(zipPath): ...\<close>. Reading the unbound \<^verbatim>\<open>link\<close> is a
  \<^verbatim>\<open>NameError\<close>.
\<close>

definition download_block :: "env \<Rightarrow> string option \<Rightarrow> string \<Rightarrow> unit nb" where
  "download_block ev link zp w =
     (if fs w zp \<noteq> None then (Inr (), w)
      else (case link of
              None \<Rightarrow> (Inl (NameError ''link''), w)
            | Some url \<Rightarrow> nb_then (urlretrieve ev url zp) (extractall zp ''data'') w))"

definition cell_download :: "env \<Rightarrow> string \<Rightarrow> unit nb" where
  "cell_download ev nl =
     nb_then mkdir_data
       (nb_bind (select_link nl) (\<lambda>link. download_block ev link (zipPath nl)))"

subsection \<open>Cells 4 and 5: loading the training and validation arrays\<close>

definition train_path :: "string \<Rightarrow> string" where
  "train_path nl = ''data/Flywing_'' @ nl @ ''/train/train_data.npz''"

definition test_path :: "string \<Rightarrow> string" where
  "test_path nl = ''data/Flywing_'' @ nl @ ''/test/test_data.npz''"

definition np_load :: "string \<Rightarrow> (string \<times> ndarray) list nb" where
  "np_load path w =
     (case fs w path of
        None \<Rightarrow> (Inl (FileNotFoundError path), w)
      | Some Dir \<Rightarrow> (Inl (IsADirectoryError path), w)
      | Some (File (Npz kvs)) \<Rightarrow> (Inr kvs, w\<lparr>trace := trace w @ [ENpLoad path]\<rparr>)
      | Some (File _) \<Rightarrow> (Inl (ValueError path), w))"

text \<open>\<^verbatim>\<open>archive[key]\<close>: a \<^verbatim>\<open>KeyError\<close> when the archive has no such array.\<close>

definition getitem :: "string \<Rightarrow> (string \<times> ndarray) list \<Rightarrow> string \<Rightarrow> ndarray nb" where
  "getitem path kvs k w =
     (case map_of kvs k of
        None \<Rightarrow> (Inl (KeyError k), w)
      | Some a \<Rightarrow> (Inr a, w\<lparr>trace := trace w @ [EGetItem path k]\<rparr>))"

definition astype :: "ndarray \<Rightarrow> dtype \<Rightarrow> ndarray" where
  "astype a d = a\<lparr>dtype := d\<rparr>"

record train_data =
  train_images :: ndarray
  train_masks :: ndarray
  val_images :: ndarray
  val_masks :: ndarray

definition cell_load_train :: "string \<Rightarrow> train_data nb" where
  "cell_load_train nl =
     nb_bind (np_load (train_path nl)) (\<lambda>trainval_data.
     nb_bind (getitem (train_path nl) trainval_data ''X_train'') (\<lambda>x_train.
     nb_bind (getitem (train_path nl) trainval_data ''Y_train'') (\<lambda>y_train.
     nb_bind (getitem (train_path nl) trainval_data ''X_val'') (\<lambda>x_val.
     nb_bind (getitem (train_path nl) trainval_data ''Y_val'') (\<lambda>y_val.
     nb_return \<lparr>train_images = astype x_train Float32, train_masks = y_train,
                val_images = astype x_val Float32, val_masks = y_val\<rparr>)))))"

definition cell_print_shapes :: "unit nb" where
  "cell_print_shapes = emit
     [EPrint ''Shape of train_images: {}'', EPrint ''Shape of train_masks:  {}'',
      EPrint ''Shape of val_images:   {}'', EPrint ''Shape of val_masks:    {}'']"

subsection \<open>Cell 6: the number of annotated training images\<close>

text \<open>\<^verbatim>\<open>a.shape[0]\<close>: an \<^verbatim>\<open>IndexError\<close> on an array without axes.\<close>

definition shape0 :: "ndarray \<Rightarrow> error + nat" where
  "shape0 a = (case shape a of [] \<Rightarrow> Inl IndexError | d # _ \<Rightarrow> Inr d)"

text \<open>
  \<^verbatim>\<open>assert n >= 0.0 and n <= train_images.shape[0]\<close>; \<^verbatim>\<open>and\<close> does not evaluate its
  right operand when the left one is false. The number is the exact value of the Python
  \<^verbatim>\<open>int\<close> or \<^verbatim>\<open>float\<close>; Python compares the two exactly.
\<close>

definition cell_assert_annotated :: "real \<Rightarrow> train_data \<Rightarrow> unit nb" where
  "cell_assert_annotated n td =
     (if \<not> 0 \<le> n then nb_raise AssertionError
      else nb_bind (nb_lift (shape0 (train_images td))) (\<lambda>n_train.
             if n \<le> real n_train then nb_return () else nb_raise AssertionError))"

subsection \<open>Cell 7: shuffling, zeroing out, augmentation\<close>

text \<open>
  \<^verbatim>\<open>float((n / train_images.shape[0]) * 100.0)\<close>: a \<^verbatim>\<open>ZeroDivisionError\<close> without
  training images, otherwise the quotient, rounded, times 100, rounded.
\<close>

definition percentage_of :: "env \<Rightarrow> real \<Rightarrow> nat \<Rightarrow> error + real" where
  "percentage_of ev n n_train =
     (if n_train = 0 then Inl ZeroDivisionError
      else Inr (rnd ev (rnd ev (n / real n_train) * 100)))"

definition assert_percentage :: "real \<Rightarrow> unit nb" where
  "assert_percentage p = (if 0 \<le> p \<and> p \<le> 100 then nb_return () else nb_raise AssertionError)"

text \<open>The cell returns \<^verbatim>\<open>X.shape[0]\<close>, all that later cells of the notebook read of \<open>X\<close>.\<close>

definition cell_sparsify :: "env \<Rightarrow> real \<Rightarrow> train_data \<Rightarrow> nat nb" where
  "cell_sparsify ev n td =
     nb_then (emit [EShuffle])
    (nb_bind (nb_lift (shape0 (train_images td))) (\<lambda>n_train.
     nb_bind (nb_lift (percentage_of ev n n_train)) (\<lambda>percentage.
     nb_then (assert_percentage percentage)
    (nb_then (emit [EZeroOut percentage, EAugment, EOneHot, EOneHot,
                    EPrint ''Shape of X:     {}'', EPrint ''Shape of Y:     {}'',
                    EPrint ''Shape of X_val: {}'', EPrint ''Shape of Y_val: {}''])
             (nb_return (augmented_samples ev n_train))))))"

subsection \<open>Cell 8: a look at one training sample\<close>

text \<open>\<^verbatim>\<open>a[i, ...]\<close> for an array with \<open>len\<close> entries along its first axis.\<close>

definition index0 :: "nat \<Rightarrow> nat \<Rightarrow> unit nb" where
  "index0 len i = (if i < len then nb_return () else nb_raise IndexError)"

definition cell_plot_sample :: "nat \<Rightarrow> unit nb" where
  "cell_plot_sample x_len =
     nb_then (emit [EPlot ''figure'', EPlot ''subplot''])
    (nb_then (index0 x_len 0)
    (emit [EPlot ''imshow'', EPlot ''axis'', EPlot ''title'',
           EPlot ''subplot'', EPlot ''imshow'', EPlot ''axis'', EPlot ''title'',
           EPlot ''subplot'', EPlot ''imshow'', EPlot ''axis'', EPlot ''title'',
           EPlot ''subplot'', EPlot ''imshow'', EPlot ''axis'', EPlot ''title'']))"

subsection \<open>Cells 9 to 12: configuration, model, training\<close>

text \<open>\<^verbatim>\<open>int(x)\<close> of a float drops the fraction: it rounds towards zero.\<close>

definition py_int :: "real \<Rightarrow> int" where
  "py_int x = (if 0 \<le> x then \<lfloor>x\<rfloor> else \<lceil>x\<rceil>)"

text \<open>
  \<^verbatim>\<open>max(100, min(int(X.shape[0]/train_batch_size), 400))\<close> with
  \<^verbatim>\<open>train_batch_size = 128\<close>: a float division of the two integers, then \<^verbatim>\<open>int\<close>.
\<close>

definition train_batch_size :: nat where
  "train_batch_size = 128"

definition train_steps_per_epoch :: "env \<Rightarrow> nat \<Rightarrow> int" where
  "train_steps_per_epoch ev x_len =
     max 100 (min (py_int (rnd ev (real x_len / real train_batch_size))) 400)"

text \<open>The keyword arguments of \<^verbatim>\<open>DenoiSegConfig(X, ...)\<close>, in the order of the call.\<close>

definition conf_kwargs :: "int \<Rightarrow> (string \<times> pyval) list" where
  "conf_kwargs steps =
     [(''unet_kern_size'', PInt 3), (''n_channel_out'', PInt 4),
      (''relative_weights'', PList [PFloat 1.0, PFloat 1.0, PFloat 5.0]),
      (''train_steps_per_epoch'', PInt steps), (''train_epochs'', PInt 200),
      (''batch_norm'', PBool True), (''train_batch_size'', PInt 128),
      (''unet_n_first'', PInt 32), (''unet_n_depth'', PInt 4),
      (''denoiseg_alpha'', PFloat 0.5), (''train_tensorboard'', PBool False)]"

definition cell_config :: "env \<Rightarrow> nat \<Rightarrow> unit nb" where
  "cell_config ev x_len = emit [EConfig (conf_kwargs (train_steps_per_epoch ev x_len))]"

definition cell_model :: "unit nb" where
  "cell_model = emit [EModel Construct]"

definition cell_train :: "unit nb" where
  "cell_train = emit [EModel Train]"

subsection \<open>Cells 14 and 15: training history and threshold\<close>

definition cell_plot_history :: "unit nb" where
  "cell_plot_history = emit [EPlot ''plot_history'']"

definition cell_threshold :: "unit nb" where
  "cell_threshold = emit
     [EModel OptimizeThresholds,
      EPrint ''The higest score of {} is achieved with threshold = {}.'']"

subsection \<open>Cells 16 to 20: test data, prediction, result plot, export\<close>

record test_data =
  test_images :: ndarray
  test_masks :: ndarray

definition cell_load_test :: "string \<Rightarrow> test_data nb" where
  "cell_load_test nl =
     nb_bind (np_load (test_path nl)) (\<lambda>archive.
     nb_bind (getitem (test_path nl) archive ''X_test'') (\<lambda>x_test.
     nb_bind (getitem (test_path nl) archive ''Y_test'') (\<lambda>y_test.
     nb_return \<lparr>test_images = x_test, test_masks = y_test\<rparr>)))"

definition cell_predict :: "unit nb" where
  "cell_predict = emit
     [EModel PredictLabelMasks,
      EPrint ''Average precision over all test images with threshold = {} is {}.'']"

text \<open>\<^verbatim>\<open>sl = 6\<close>; \<^verbatim>\<open>test_images[sl]\<close> and \<^verbatim>\<open>test_masks[sl]\<close> need seven entries.\<close>

definition cell_plot_result :: "test_data \<Rightarrow> unit nb" where
  "cell_plot_result tst =
     nb_then (emit [EPlot ''figure'', EPlot ''figure'', EPlot ''subplot''])
    (nb_bind (nb_lift (shape0 (test_images tst))) (\<lambda>n_images.
     nb_then (index0 n_images 6)
    (nb_then (emit [EPlot ''imshow'', EPlot ''title'',
                    EPlot ''subplot'', EPlot ''imshow'', EPlot ''title'',
                    EPlot ''subplot''])
    (nb_bind (nb_lift (shape0 (test_masks tst))) (\<lambda>n_masks.
     nb_then (index0 n_masks 6)
    (emit [EPlot ''imshow'', EPlot ''title'', EPlot ''show'']))))))"

definition cell_summary :: "unit nb" where
  "cell_summary = emit
     [EPrint ''Number of annotated images used for training:'', EPrint ''Noise level:'',
      EPrint ''Considered alpha:'']"

text \<open>\<^verbatim>\<open>model.export_TF(..., test_img=X_val[0,...,0], ...)\<close>\<close>

definition cell_export :: "train_data \<Rightarrow> unit nb" where
  "cell_export td =
     nb_bind (nb_lift (shape0 (val_images td))) (\<lambda>n_val.
     nb_then (index0 n_val 0) (emit [EModel ExportTF]))"

subsection \<open>The notebook\<close>

definition cells_after_load :: "env \<Rightarrow> params \<Rightarrow> train_data \<Rightarrow> unit nb" where
  "cells_after_load ev p td =
     nb_then (cell_assert_annotated (number_of_annotated_training_images p) td)
    (nb_bind (cell_sparsify ev (number_of_annotated_training_images p) td) (\<lambda>x_len.
     nb_then (cell_plot_sample x_len)
    (nb_then (cell_config ev x_len)
    (nb_then cell_model
    (nb_then cell_train
    (nb_then cell_plot_history
    (nb_then cell_threshold
    (nb_bind (cell_load_test (noise_level p)) (\<lambda>tst.
     nb_then cell_predict
    (nb_then (cell_plot_result tst)
    (nb_then cell_summary
             (cell_export td))))))))))))"

definition run_notebook :: "env \<Rightarrow> params \<Rightarrow> unit nb" where
  "run_notebook ev p =
     nb_then cell_imports
    (nb_then (cell_download ev (noise_level p))
    (nb_bind (cell_load_train (noise_level p)) (\<lambda>td.
     nb_then cell_print_shapes
             (cells_after_load ev p td))))"

subsection \<open>Reading a trace\<close>

text \<open>The events a run from \<open>w\<close> to \<open>w'\<close> has added.\<close>

definition events_of_run :: "world \<Rightarrow> world \<Rightarrow> event list" where
  "events_of_run w w' = drop (length (trace w)) (trace w')"

fun model_calls :: "event list \<Rightarrow> model_call list" where
  "model_calls [] = []"
| "model_calls (EModel c # es) = c # model_calls es"
| "model_calls (_ # es) = model_calls es"

fun keys_read :: "event list \<Rightarrow> (string \<times> string) list" where
  "keys_read [] = []"
| "keys_read (EGetItem path k # es) = (path, k) # keys_read es"
| "keys_read (_ # es) = keys_read es"

fun configs :: "event list \<Rightarrow> (string \<times> pyval) list list" where
  "configs [] = []"
| "configs (EConfig kw # es) = kw # configs es"
| "configs (_ # es) = configs es"

fun zeroed_out :: "event list \<Rightarrow> real list" where
  "zeroed_out [] = []"
| "zeroed_out (EZeroOut p # es) = p # zeroed_out es"
| "zeroed_out (_ # es) = zeroed_out es"

text \<open>
  The steps (a) to (g) of the specification's overview, and the step an event belongs to.
  Printing is none of them.
\<close>

datatype step = Import | Download | LoadArrays | Sparsify | Configure | Delegate | Plotting

fun step_of :: "event \<Rightarrow> step option" where
  "step_of (EImport _) = Some Import"
| "step_of (EMkdir _) = Some Download"
| "step_of (EUrlRetrieve _ _) = Some Download"
| "step_of (EExtractAll _ _) = Some Download"
| "step_of (ENpLoad _) = Some LoadArrays"
| "step_of (EGetItem _ _) = Some LoadArrays"
| "step_of EShuffle = Some Sparsify"
| "step_of (EZeroOut _) = Some Sparsify"
| "step_of EAugment = Some Sparsify"
| "step_of EOneHot = Some Sparsify"
| "step_of (EConfig _) = Some Configure"
| "step_of (EModel _) = Some Delegate"
| "step_of (EPlot _) = Some Plotting"
| "step_of (EPrint _) = None"

fun steps_of :: "event list \<Rightarrow> step list" where
  "steps_of [] = []"
| "steps_of (e # es) = (case step_of e of None \<Rightarrow> steps_of es | Some s \<Rightarrow> s # steps_of es)"

text \<open>The phases of a run: its steps, a block of equal steps taken as one.\<close>

definition phases :: "event list \<Rightarrow> step list" where
  "phases es = remdups_adj (steps_of es)"

fun step_rank :: "step \<Rightarrow> nat" where
  "step_rank Import = 0"
| "step_rank Download = 1"
| "step_rank LoadArrays = 2"
| "step_rank Sparsify = 3"
| "step_rank Configure = 4"
| "step_rank Delegate = 5"
| "step_rank Plotting = 6"

text \<open>The order the specification states: (a) before (b) before ... before (g).\<close>

definition in_spec_order :: "step list \<Rightarrow> bool" where
  "in_spec_order ss = sorted (map step_rank ss)"

text \<open>Every \<open>a\<close> of the list stands before every \<open>b\<close>.\<close>

fun all_before :: "'a \<Rightarrow> 'a \<Rightarrow> 'a list \<Rightarrow> bool" where
  "all_before a b [] = True"
| "all_before a b (x # xs) = ((if x = b then a \<notin> set xs else True) \<and> all_before a b xs)"

text \<open>The events of the download cell, from the file system it starts on.\<close>

definition download_events ::
  "(string \<Rightarrow> entry option) \<Rightarrow> string \<Rightarrow> string \<Rightarrow> event list"
where
  "download_events f nl url =
     (if f ''data'' = Some Dir then [] else [EMkdir ''data'']) @
     (if nl = ''n0'' \<or> nl = ''n10'' \<or> nl = ''n20'' then []
      else [EPrint ''This noise level does not exist for this dataset.'']) @
     (if f (zipPath nl) \<noteq> None then []
      else [EUrlRetrieve url (zipPath nl), EExtractAll (zipPath nl) ''data''])"

text \<open>The events of the two loading cells, when they do not raise.\<close>

definition load_events :: "string \<Rightarrow> event list" where
  "load_events nl =
     [ENpLoad (train_path nl),
      EGetItem (train_path nl) ''X_train'', EGetItem (train_path nl) ''Y_train'',
      EGetItem (train_path nl) ''X_val'', EGetItem (train_path nl) ''Y_val'',
      EPrint ''Shape of train_images: {}'', EPrint ''Shape of train_masks:  {}'',
      EPrint ''Shape of val_images:   {}'', EPrint ''Shape of val_masks:    {}'']"

text \<open>The events of the cells after them, when none of them raises.\<close>

definition after_load_events :: "string \<Rightarrow> real \<Rightarrow> int \<Rightarrow> event list" where
  "after_load_events nl percentage steps =
     [EShuffle, EZeroOut percentage, EAugment, EOneHot, EOneHot,
      EPrint ''Shape of X:     {}'', EPrint ''Shape of Y:     {}'',
      EPrint ''Shape of X_val: {}'', EPrint ''Shape of Y_val: {}'',
      EPlot ''figure'', EPlot ''subplot'',
      EPlot ''imshow'', EPlot ''axis'', EPlot ''title'',
      EPlot ''subplot'', EPlot ''imshow'', EPlot ''axis'', EPlot ''title'',
      EPlot ''subplot'', EPlot ''imshow'', EPlot ''axis'', EPlot ''title'',
      EPlot ''subplot'', EPlot ''imshow'', EPlot ''axis'', EPlot ''title'',
      EConfig (conf_kwargs steps),
      EModel Construct,
      EModel Train,
      EPlot ''plot_history'',
      EModel OptimizeThresholds,
      EPrint ''The higest score of {} is achieved with threshold = {}.'',
      ENpLoad (test_path nl),
      EGetItem (test_path nl) ''X_test'', EGetItem (test_path nl) ''Y_test'',
      EModel PredictLabelMasks,
      EPrint ''Average precision over all test images with threshold = {} is {}.'',
      EPlot ''figure'', EPlot ''figure'', EPlot ''subplot'',
      EPlot ''imshow'', EPlot ''title'',
      EPlot ''subplot'', EPlot ''imshow'', EPlot ''title'',
      EPlot ''subplot'', EPlot ''imshow'', EPlot ''title'', EPlot ''show'',
      EPrint ''Number of annotated images used for training:'', EPrint ''Noise level:'',
      EPrint ''Considered alpha:'',
      EModel ExportTF]"

subsection \<open>A small data set to run the notebook on\<close>

text \<open>
  A server that has the \<open>n20\<close> archive, with 16 training patches, 4 validation patches
  and 8 test images; eightfold augmentation; five annotated images. On these numbers
  (5 / 16 * 100 = 31.25 and 128 / 128 = 1) float arithmetic is exact, so \<open>rnd\<close> is the
  identity.
\<close>

definition example_train_npz :: "(string \<times> ndarray) list" where
  "example_train_npz =
     [(''X_train'', \<lparr>shape = [16, 128, 128], dtype = Float64\<rparr>),
      (''Y_train'', \<lparr>shape = [16, 128, 128], dtype = UInt16\<rparr>),
      (''X_val'', \<lparr>shape = [4, 128, 128], dtype = Float64\<rparr>),
      (''Y_val'', \<lparr>shape = [4, 128, 128], dtype = UInt16\<rparr>)]"

definition example_test_npz :: "(string \<times> ndarray) list" where
  "example_test_npz =
     [(''X_test'', \<lparr>shape = [8], dtype = Object\<rparr>),
      (''Y_test'', \<lparr>shape = [8], dtype = Object\<rparr>)]"

definition example_env :: env where
  "example_env =
     \<lparr>network = (\<lambda>url.
        if url = ''https://owncloud.mpi-cbg.de/index.php/s/s1XEtPnKTvR64aG/download''
        then Some (Zip [(''Flywing_n20/train/train_data.npz'', Npz example_train_npz),
                        (''Flywing_n20/test/test_data.npz'', Npz example_test_npz)])
        else None),
      augmented_samples = (\<lambda>n. 8 * n),
      rnd = (\<lambda>x. x)\<rparr>"

definition example_params :: params where
  "example_params = \<lparr>noise_level = ''n20'', number_of_annotated_training_images = 5\<rparr>"

definition fresh_world :: world where
  "fresh_world = \<lparr>fs = Map.empty, trace = []\<rparr>"

text \<open>The same server, its training archive holding one more array.\<close>

definition extra_env :: env where
  "extra_env =
     \<lparr>network = (\<lambda>url.
        if url = ''https://owncloud.mpi-cbg.de/index.php/s/s1XEtPnKTvR64aG/download''
        then Some (Zip [(''Flywing_n20/train/train_data.npz'',
                           Npz (example_train_npz @
                                [(''X_extra'', \<lparr>shape = [1], dtype = UInt8\<rparr>)])),
                        (''Flywing_n20/test/test_data.npz'', Npz example_test_npz)])
        else None),
      augmented_samples = (\<lambda>n. 8 * n),
      rnd = (\<lambda>x. x)\<rparr>"

text \<open>The training data the loading cell makes of that archive.\<close>

definition example_train_data :: train_data where
  "example_train_data =
     \<lparr>train_images = \<lparr>shape = [16, 128, 128], dtype = Float32\<rparr>,
      train_masks = \<lparr>shape = [16, 128, 128], dtype = UInt16\<rparr>,
      val_images = \<lparr>shape = [4, 128, 128], dtype = Float32\<rparr>,
      val_masks = \<lparr>shape = [4, 128, 128], dtype = UInt16\<rparr>\<rparr>"

section \<open>Properties\<close>

subsection \<open>Successful steps\<close>

lemma nb_bind_Inr:
  "nb_bind m f w = (Inr b, w'') \<longleftrightarrow> (\<exists>a w'. m w = (Inr a, w') \<and> f a w' = (Inr b, w''))"
  by (auto simp: nb_bind_def split: prod.splits sum.splits)

lemma nb_then_Inr:
  "nb_then m k w = (Inr b, w'') \<longleftrightarrow> (\<exists>w'. m w = (Inr (), w') \<and> k w' = (Inr b, w''))"
  by (simp add: nb_then_def nb_bind_Inr)

lemma emit_Inr:
  "emit es w = (r, w') \<longleftrightarrow> r = Inr () \<and> w' = w\<lparr>trace := trace w @ es\<rparr>"
  by (auto simp: emit_def)

lemma nb_return_Inr: "nb_return a w = (r, w') \<longleftrightarrow> r = Inr a \<and> w' = w"
  by (auto simp: nb_return_def)

lemma nb_raise_Inr: "nb_raise e w = (Inr a, w') \<longleftrightarrow> False"
  by (simp add: nb_raise_def)

lemma nb_lift_Inr: "nb_lift r w = (Inr a, w') \<longleftrightarrow> r = Inr a \<and> w' = w"
  by (auto simp: nb_lift_def)

lemmas nb_Inr = nb_bind_Inr nb_then_Inr emit_Inr nb_return_Inr nb_raise_Inr nb_lift_Inr

lemma zipPath_not_data: "zipPath nl \<noteq> ''data''"
  by (simp add: zipPath_def)

lemma extract_members_keeps:
  "p \<in> dom f \<Longrightarrow> p \<in> dom (extract_members d ms f)"
  by (induction d ms f rule: extract_members.induct) auto

lemma extract_members_data:
  "extract_members ''data'' ms f ''data'' = f ''data''"
  by (induction "''data''" ms f rule: extract_members.induct) auto

lemma mkdir_data_ok:
  assumes "mkdir_data w = (Inr u, w')"
  shows "fs w' ''data'' = Some Dir"
    and "trace w' = trace w @ (if fs w ''data'' = Some Dir then [] else [EMkdir ''data''])"
    and "fs w' (zipPath nl) = fs w (zipPath nl)"
    and "p \<in> dom (fs w) \<Longrightarrow> p \<in> dom (fs w')"
  using assms zipPath_not_data [of nl] by (auto simp: mkdir_data_def split: if_splits)

lemma select_link_ok:
  assumes "select_link nl w = (Inr l, w')"
  shows "w' = w\<lparr>trace := trace w @
           (if nl = ''n0'' \<or> nl = ''n10'' \<or> nl = ''n20'' then []
            else [EPrint ''This noise level does not exist for this dataset.''])\<rparr>"
  using assms by (auto simp: select_link_def nb_Inr split: if_splits)

lemma download_block_cases:
  assumes "download_block ev l zp w = (Inr u, w')"
  shows "(fs w zp \<noteq> None \<and> w' = w) \<or>
         (\<exists>url ms. fs w zp = None \<and>
            w' = w\<lparr>fs := extract_members ''data'' ms ((fs w)(zp \<mapsto> File (Zip ms))),
                      trace := trace w @ [EUrlRetrieve url zp, EExtractAll zp ''data'']\<rparr>)"
  using assms
  by (cases "fs w zp = None")
     (auto simp: download_block_def nb_Inr urlretrieve_def extractall_def
           split: option.splits entry.splits blob.splits)

lemma download_block_ok:
  assumes "download_block ev l zp w = (Inr u, w')"
  shows "zp \<in> dom (fs w')"
    and "\<exists>url. trace w' = trace w @
           (if fs w zp \<noteq> None then [] else [EUrlRetrieve url zp, EExtractAll zp ''data''])"
    and "zp \<noteq> ''data'' \<Longrightarrow> fs w' ''data'' = fs w ''data''"
    and "p \<in> dom (fs w) \<Longrightarrow> p \<in> dom (fs w')"
proof -
  have "zp \<in> dom (fs w') \<and>
        (\<exists>url. trace w' = trace w @
           (if fs w zp \<noteq> None then [] else [EUrlRetrieve url zp, EExtractAll zp ''data''])) \<and>
        (zp \<noteq> ''data'' \<longrightarrow> fs w' ''data'' = fs w ''data'') \<and>
        (p \<in> dom (fs w) \<longrightarrow> p \<in> dom (fs w'))"
    using download_block_cases [OF assms]
  proof (elim disjE exE conjE)
    assume "fs w zp \<noteq> None" "w' = w"
    then show ?thesis by auto
  next
    fix url ms
    assume absent: "fs w zp = None"
      and w': "w' = w\<lparr>fs := extract_members ''data'' ms ((fs w)(zp \<mapsto> File (Zip ms))),
                        trace := trace w @ [EUrlRetrieve url zp, EExtractAll zp ''data'']\<rparr>"
    have "zp \<in> dom (extract_members ''data'' ms ((fs w)(zp \<mapsto> File (Zip ms))))"
      by (rule extract_members_keeps) simp
    moreover have "p \<in> dom (fs w) \<Longrightarrow>
        p \<in> dom (extract_members ''data'' ms ((fs w)(zp \<mapsto> File (Zip ms))))"
      by (rule extract_members_keeps) simp
    ultimately show ?thesis
      using absent unfolding w' by (simp add: extract_members_data)
  qed
  then show "zp \<in> dom (fs w')"
    and "\<exists>url. trace w' = trace w @
           (if fs w zp \<noteq> None then [] else [EUrlRetrieve url zp, EExtractAll zp ''data''])"
    and "zp \<noteq> ''data'' \<Longrightarrow> fs w' ''data'' = fs w ''data''"
    and "p \<in> dom (fs w) \<Longrightarrow> p \<in> dom (fs w')"
    by blast+
qed

lemma cell_download_ok:
  assumes "cell_download ev nl w = (Inr u, w')"
  shows "\<exists>url. trace w' = trace w @ download_events (fs w) nl url"
    and "fs w' ''data'' = Some Dir"
    and "zipPath nl \<in> dom (fs w')"
    and "p \<in> dom (fs w) \<Longrightarrow> p \<in> dom (fs w')"
proof -
  from assms obtain w1 l w2 where
    m: "mkdir_data w = (Inr (), w1)" and s: "select_link nl w1 = (Inr l, w2)"
    and d: "download_block ev l (zipPath nl) w2 = (Inr u, w')"
    by (auto simp: cell_download_def nb_Inr)
  note m' = mkdir_data_ok [OF m]
  note s' = select_link_ok [OF s]
  note d' = download_block_ok [OF d]
  have f2: "fs w2 = fs w1" using s' by simp
  from d'(2) obtain url where
    t: "trace w' = trace w2 @ (if fs w2 (zipPath nl) \<noteq> None then []
          else [EUrlRetrieve url (zipPath nl), EExtractAll (zipPath nl) ''data''])"
    by blast
  have "trace w' = trace w @ download_events (fs w) nl url"
    using t m'(2) m'(3) [of nl] f2 s' by (simp add: download_events_def)
  then show "\<exists>url. trace w' = trace w @ download_events (fs w) nl url" ..
  show "fs w' ''data'' = Some Dir" using d'(3) [OF zipPath_not_data] f2 m'(1) by simp
  show "zipPath nl \<in> dom (fs w')" by (rule d'(1))
  show "p \<in> dom (fs w) \<Longrightarrow> p \<in> dom (fs w')"
    using d'(4) [of p] m'(4) [of p] f2 by simp
qed


lemma cell_load_train_ok:
  assumes "cell_load_train nl w = (Inr td, w')"
  shows "w' = w\<lparr>trace := trace w @ take 5 (load_events nl)\<rparr>"
    and "dtype (train_images td) = Float32" and "dtype (val_images td) = Float32"
    and "\<exists>kvs. fs w (train_path nl) = Some (File (Npz kvs)) \<and>
           {''X_train'', ''Y_train'', ''X_val'', ''Y_val''} \<subseteq> dom (map_of kvs)"
  using assms
  by (auto simp: cell_load_train_def nb_Inr np_load_def getitem_def astype_def load_events_def
      split: option.splits entry.splits blob.splits)

lemma train_steps_range:
  "100 \<le> train_steps_per_epoch ev x_len" "train_steps_per_epoch ev x_len \<le> 400"
  by (simp_all add: train_steps_per_epoch_def)


lemma index0_Inr: "index0 len i w = (Inr u, w') \<longleftrightarrow> i < len \<and> w' = w"
  by (auto simp: index0_def nb_Inr)

lemma cell_assert_annotated_Inr:
  "cell_assert_annotated n td w = (Inr u, w') \<longleftrightarrow>
     (\<exists>n_train. shape0 (train_images td) = Inr n_train \<and> 0 \<le> n \<and> n \<le> real n_train) \<and> w' = w"
  by (auto simp: cell_assert_annotated_def nb_Inr)

lemma cell_sparsify_Inr:
  "cell_sparsify ev n td w = (Inr x_len, w') \<longleftrightarrow>
     (\<exists>n_train. shape0 (train_images td) = Inr n_train \<and> n_train \<noteq> 0 \<and>
        0 \<le> rnd ev (rnd ev (n / real n_train) * 100) \<and>
        rnd ev (rnd ev (n / real n_train) * 100) \<le> 100 \<and>
        x_len = augmented_samples ev n_train \<and>
        w' = w\<lparr>trace := trace w @
               [EShuffle, EZeroOut (rnd ev (rnd ev (n / real n_train) * 100)),
                EAugment, EOneHot, EOneHot,
                EPrint ''Shape of X:     {}'', EPrint ''Shape of Y:     {}'',
                EPrint ''Shape of X_val: {}'', EPrint ''Shape of Y_val: {}'']\<rparr>)"
  by (auto simp: cell_sparsify_def nb_Inr percentage_of_def assert_percentage_def)

lemma cell_plot_sample_Inr:
  "cell_plot_sample x_len w = (Inr u, w') \<longleftrightarrow>
     0 < x_len \<and> w' = w\<lparr>trace := trace w @
       [EPlot ''figure'', EPlot ''subplot'',
        EPlot ''imshow'', EPlot ''axis'', EPlot ''title'',
        EPlot ''subplot'', EPlot ''imshow'', EPlot ''axis'', EPlot ''title'',
        EPlot ''subplot'', EPlot ''imshow'', EPlot ''axis'', EPlot ''title'',
        EPlot ''subplot'', EPlot ''imshow'', EPlot ''axis'', EPlot ''title'']\<rparr>"
  by (auto simp: cell_plot_sample_def nb_Inr index0_Inr)

lemma cell_load_test_Inr:
  "cell_load_test nl w = (Inr tst, w') \<longleftrightarrow>
     (\<exists>kvs x y. fs w (test_path nl) = Some (File (Npz kvs)) \<and>
        map_of kvs ''X_test'' = Some x \<and> map_of kvs ''Y_test'' = Some y \<and>
        tst = \<lparr>test_images = x, test_masks = y\<rparr> \<and>
        w' = w\<lparr>trace := trace w @
               [ENpLoad (test_path nl), EGetItem (test_path nl) ''X_test'',
                EGetItem (test_path nl) ''Y_test'']\<rparr>)"
  by (auto simp: cell_load_test_def nb_Inr np_load_def getitem_def
      split: option.splits entry.splits blob.splits)

lemma cell_plot_result_Inr:
  "cell_plot_result tst w = (Inr u, w') \<longleftrightarrow>
     (\<exists>a b. shape0 (test_images tst) = Inr a \<and> 6 < a \<and>
            shape0 (test_masks tst) = Inr b \<and> 6 < b) \<and>
     w' = w\<lparr>trace := trace w @
       [EPlot ''figure'', EPlot ''figure'', EPlot ''subplot'',
        EPlot ''imshow'', EPlot ''title'',
        EPlot ''subplot'', EPlot ''imshow'', EPlot ''title'',
        EPlot ''subplot'', EPlot ''imshow'', EPlot ''title'', EPlot ''show'']\<rparr>"
  by (auto simp: cell_plot_result_def nb_Inr index0_Inr)

lemma cell_export_Inr:
  "cell_export td w = (Inr u, w') \<longleftrightarrow>
     (\<exists>c. shape0 (val_images td) = Inr c \<and> 0 < c) \<and>
     w' = w\<lparr>trace := trace w @ [EModel ExportTF]\<rparr>"
  by (auto simp: cell_export_def nb_Inr index0_Inr)

lemmas cell_Inr = cell_assert_annotated_Inr cell_sparsify_Inr cell_plot_sample_Inr
  cell_load_test_Inr cell_plot_result_Inr cell_export_Inr

lemma cells_after_load_ok:
  assumes "cells_after_load ev p td w = (Inr u, w')"
  shows "\<exists>n_train pct.
           shape0 (train_images td) = Inr n_train \<and> n_train \<noteq> 0 \<and>
           0 \<le> number_of_annotated_training_images p \<and>
           number_of_annotated_training_images p \<le> real n_train \<and>
           pct = rnd ev (rnd ev (number_of_annotated_training_images p / real n_train) * 100) \<and>
           0 \<le> pct \<and> pct \<le> 100 \<and>
           w' = w\<lparr>trace := trace w @
                  after_load_events (noise_level p) pct
                    (train_steps_per_epoch ev (augmented_samples ev n_train))\<rparr>"
    and "\<exists>kvs. fs w (test_path (noise_level p)) = Some (File (Npz kvs)) \<and>
           {''X_test'', ''Y_test''} \<subseteq> dom (map_of kvs)"
  using assms
  by (auto simp: cells_after_load_def nb_then_Inr nb_bind_Inr emit_Inr cell_Inr cell_config_def
        cell_model_def cell_train_def cell_plot_history_def cell_threshold_def
        cell_predict_def cell_summary_def after_load_events_def)

lemma run_notebook_ok:
  assumes "run_notebook ev p w = (Inr u, w')"
  shows "\<exists>w1 td n_train pct url kt ks.
           cell_download ev (noise_level p) (w\<lparr>trace := trace w @ import_events\<rparr>) = (Inr (), w1) \<and>
           fs w' = fs w1 \<and>
           cell_load_train (noise_level p) w1 =
             (Inr td, w1\<lparr>trace := trace w1 @ take 5 (load_events (noise_level p))\<rparr>) \<and>
           fs w1 (train_path (noise_level p)) = Some (File (Npz kt)) \<and>
           {''X_train'', ''Y_train'', ''X_val'', ''Y_val''} \<subseteq> dom (map_of kt) \<and>
           fs w1 (test_path (noise_level p)) = Some (File (Npz ks)) \<and>
           {''X_test'', ''Y_test''} \<subseteq> dom (map_of ks) \<and>
           shape0 (train_images td) = Inr n_train \<and> n_train \<noteq> 0 \<and>
           0 \<le> number_of_annotated_training_images p \<and>
           number_of_annotated_training_images p \<le> real n_train \<and>
           pct = rnd ev (rnd ev (number_of_annotated_training_images p / real n_train) * 100) \<and>
           0 \<le> pct \<and> pct \<le> 100 \<and>
           trace w' = trace w @ import_events @ download_events (fs w) (noise_level p) url @
                  load_events (noise_level p) @
                  after_load_events (noise_level p) pct
                    (train_steps_per_epoch ev (augmented_samples ev n_train))"
proof -
  from assms obtain w1 td w2 where
    d: "cell_download ev (noise_level p) (w\<lparr>trace := trace w @ import_events\<rparr>) = (Inr (), w1)"
    and l: "cell_load_train (noise_level p) w1 = (Inr td, w2)"
    and a: "cells_after_load ev p td (w2\<lparr>trace := trace w2 @ drop 5 (load_events (noise_level p))\<rparr>)
              = (Inr u, w')"
    by (auto simp: run_notebook_def nb_Inr cell_imports_def cell_print_shapes_def load_events_def)
  from cell_download_ok(1) [OF d] obtain url where
    t1: "trace w1 = trace w @ import_events @ download_events (fs w) (noise_level p) url"
    by auto
  note l' = cell_load_train_ok [OF l]
  from l'(4) obtain kt where
    kt: "fs w1 (train_path (noise_level p)) = Some (File (Npz kt))"
        "{''X_train'', ''Y_train'', ''X_val'', ''Y_val''} \<subseteq> dom (map_of kt)"
    by blast
  from cells_after_load_ok(2) [OF a] l'(1) obtain ks where
    ks: "fs w1 (test_path (noise_level p)) = Some (File (Npz ks))"
        "{''X_test'', ''Y_test''} \<subseteq> dom (map_of ks)"
    by auto
  from cells_after_load_ok(1) [OF a] obtain n_train pct where
    r: "shape0 (train_images td) = Inr n_train" "n_train \<noteq> 0"
       "0 \<le> number_of_annotated_training_images p"
       "number_of_annotated_training_images p \<le> real n_train"
       "pct = rnd ev (rnd ev (number_of_annotated_training_images p / real n_train) * 100)"
       "0 \<le> pct" "pct \<le> 100"
    and w': "w' = (w2\<lparr>trace := trace w2 @ drop 5 (load_events (noise_level p))\<rparr>)
              \<lparr>trace := trace (w2\<lparr>trace := trace w2 @ drop 5 (load_events (noise_level p))\<rparr>) @
                  after_load_events (noise_level p) pct
                    (train_steps_per_epoch ev (augmented_samples ev n_train))\<rparr>"
    by blast
  have "fs w' = fs w1" using w' l'(1) by simp
  moreover have "trace w' = trace w @ import_events @ download_events (fs w) (noise_level p) url @
                  load_events (noise_level p) @
                  after_load_events (noise_level p) pct
                    (train_steps_per_epoch ev (augmented_samples ev n_train))"
    using w' l'(1) t1 append_take_drop_id [of 5 "load_events (noise_level p)"]
    by (simp del: append_take_drop_id)
  ultimately show ?thesis using d l l'(1) kt ks r by blast
qed

subsection \<open>Reading the trace of a successful run\<close>

lemma events_of_run_append: "trace w' = trace w @ es \<Longrightarrow> events_of_run w w' = es"
  by (simp add: events_of_run_def)

lemma steps_of_append: "steps_of (xs @ ys) = steps_of xs @ steps_of ys"
  by (induction xs) (auto split: option.splits)

lemma steps_of_import_events: "steps_of import_events = replicate 12 Import"
  by (simp add: import_events_def eval_nat_numeral)

lemma steps_of_download_events:
  "steps_of (download_events f nl url) =
     (if f ''data'' = Some Dir then [] else [Download]) @
     (if f (zipPath nl) \<noteq> None then [] else [Download, Download])"
  by (simp add: download_events_def)

lemma steps_of_example_download:
  "steps_of [EMkdir d, EUrlRetrieve u z, EExtractAll z d] = [Download, Download, Download]"
  by simp

lemma steps_of_load_events: "steps_of (load_events nl) = replicate 5 LoadArrays"
  by (simp add: load_events_def eval_nat_numeral)

lemma steps_of_after_load_events:
  "steps_of (after_load_events nl pct steps) =
     replicate 5 Sparsify @ replicate 17 Plotting @ [Configure, Delegate, Delegate, Plotting,
       Delegate, LoadArrays, LoadArrays, LoadArrays, Delegate] @ replicate 12 Plotting @ [Delegate]"
  by (simp add: after_load_events_def eval_nat_numeral)

lemmas steps_of_events = steps_of_append steps_of_import_events steps_of_download_events
  steps_of_example_download steps_of_load_events steps_of_after_load_events

lemma model_calls_append: "model_calls (xs @ ys) = model_calls xs @ model_calls ys"
  by (induction xs rule: model_calls.induct) auto

lemma keys_read_append: "keys_read (xs @ ys) = keys_read xs @ keys_read ys"
  by (induction xs rule: keys_read.induct) auto

lemma configs_append: "configs (xs @ ys) = configs xs @ configs ys"
  by (induction xs rule: configs.induct) auto

lemma projections_import_events:
  "model_calls import_events = []" "keys_read import_events = []" "configs import_events = []"
  by (simp_all add: import_events_def)

lemma projections_download_events:
  "model_calls (download_events f nl url) = []" "keys_read (download_events f nl url) = []"
  "configs (download_events f nl url) = []"
  by (simp_all add: download_events_def)

lemma projections_example_download:
  "model_calls [EMkdir d, EUrlRetrieve u z, EExtractAll z d] = []"
  "keys_read [EMkdir d, EUrlRetrieve u z, EExtractAll z d] = []"
  "configs [EMkdir d, EUrlRetrieve u z, EExtractAll z d] = []"
  by simp_all

lemma projections_load_events:
  "model_calls (load_events nl) = []"
  "keys_read (load_events nl) =
     [(train_path nl, ''X_train''), (train_path nl, ''Y_train''),
      (train_path nl, ''X_val''), (train_path nl, ''Y_val'')]"
  "configs (load_events nl) = []"
  by (simp_all add: load_events_def)

lemma projections_after_load_events:
  "model_calls (after_load_events nl pct steps) =
     [Construct, Train, OptimizeThresholds, PredictLabelMasks, ExportTF]"
  "keys_read (after_load_events nl pct steps) =
     [(test_path nl, ''X_test''), (test_path nl, ''Y_test'')]"
  "configs (after_load_events nl pct steps) = [conf_kwargs steps]"
  by (simp_all add: after_load_events_def)

lemmas projections = model_calls_append keys_read_append configs_append
  projections_import_events projections_download_events projections_example_download
  projections_load_events projections_after_load_events

lemma run_events:
  assumes "run_notebook ev p w = (Inr (), w')"
  shows "\<exists>n_train url.
           events_of_run w w' =
             import_events @ download_events (fs w) (noise_level p) url @
             load_events (noise_level p) @
             after_load_events (noise_level p)
               (rnd ev (rnd ev (number_of_annotated_training_images p / real n_train) * 100))
               (train_steps_per_epoch ev (augmented_samples ev n_train))"
proof -
  from run_notebook_ok [OF assms] obtain n_train url where
    "trace w' = trace w @ import_events @ download_events (fs w) (noise_level p) url @
       load_events (noise_level p) @
       after_load_events (noise_level p)
         (rnd ev (rnd ev (number_of_annotated_training_images p / real n_train) * 100))
         (train_steps_per_epoch ev (augmented_samples ev n_train))"
    by blast
  then show ?thesis
    by (blast intro: events_of_run_append)
qed

lemma paths_differ:
  "train_path nl \<noteq> test_path nl" "train_path nl \<noteq> zipPath nl" "test_path nl \<noteq> zipPath nl"
  "train_path nl \<noteq> ''data''" "test_path nl \<noteq> ''data''"
  by (simp_all add: train_path_def test_path_def zipPath_def)

lemma run_archives:
  assumes "run_notebook ev p w = (Inr (), w')"
  shows "\<exists>kt ks. fs w' (train_path (noise_level p)) = Some (File (Npz kt)) \<and>
                  {''X_train'', ''Y_train'', ''X_val'', ''Y_val''} \<subseteq> fst ` set kt \<and>
                  fs w' (test_path (noise_level p)) = Some (File (Npz ks)) \<and>
                  {''X_test'', ''Y_test''} \<subseteq> fst ` set ks"
  using run_notebook_ok [OF assms]
  apply (elim exE conjE)
  subgoal premises prems for w1 td n_train pct url kt ks
    using prems(4,5,6,7) unfolding prems(2) dom_map_of_conv_image_fst
    by (intro exI conjI)
  done

subsection \<open>The example data set\<close>

lemma download_from_server:
  assumes "network ev ''https://owncloud.mpi-cbg.de/index.php/s/s1XEtPnKTvR64aG/download'' =
             Some (Zip [(''Flywing_n20/train/train_data.npz'', Npz kt),
                        (''Flywing_n20/test/test_data.npz'', Npz ks)])"
  shows "cell_download ev ''n20'' (fresh_world\<lparr>trace := tr\<rparr>) =
     (Inr (),
      \<lparr>fs = [''data'' \<mapsto> Dir,
             zipPath ''n20'' \<mapsto>
               File (Zip [(''Flywing_n20/train/train_data.npz'', Npz kt),
                          (''Flywing_n20/test/test_data.npz'', Npz ks)]),
             train_path ''n20'' \<mapsto> File (Npz kt),
             test_path ''n20'' \<mapsto> File (Npz ks)],
       trace = tr @ [EMkdir ''data'',
                     EUrlRetrieve ''https://owncloud.mpi-cbg.de/index.php/s/s1XEtPnKTvR64aG/download''
                       (zipPath ''n20''),
                     EExtractAll (zipPath ''n20'') ''data'']\<rparr>)"
  using assms
  by (simp add: cell_download_def mkdir_data_def select_link_def zipPath_def urlretrieve_def
        extractall_def download_block_def nb_then_def nb_bind_def nb_return_def
        fresh_world_def train_path_def test_path_def)

lemma load_train_example:
  assumes "fs w (train_path ''n20'') = Some (File (Npz (example_train_npz @ extra)))"
  shows "cell_load_train ''n20'' w =
           (Inr example_train_data, w\<lparr>trace := trace w @ take 5 (load_events ''n20'')\<rparr>)"
  using assms
  by (simp add: cell_load_train_def np_load_def getitem_def nb_bind_def nb_return_def
        example_train_npz_def example_train_data_def astype_def load_events_def)

lemma cells_after_load_example:
  assumes "fs w (test_path ''n20'') = Some (File (Npz example_test_npz))"
    and "rnd ev = (\<lambda>x. x)" and "augmented_samples ev = (\<lambda>n. 8 * n)"
  shows "cells_after_load ev example_params example_train_data w =
           (Inr (), w\<lparr>trace := trace w @ after_load_events ''n20'' 31.25 100\<rparr>)"
  using assms
  by (simp add: cells_after_load_def nb_then_Inr nb_bind_Inr emit_Inr cell_Inr cell_config_def
        cell_model_def cell_train_def cell_plot_history_def cell_threshold_def
        cell_predict_def cell_summary_def after_load_events_def
        example_params_def example_train_data_def example_test_npz_def shape0_def
        train_steps_per_epoch_def train_batch_size_def py_int_def)

lemma run_on_server:
  assumes net: "network ev ''https://owncloud.mpi-cbg.de/index.php/s/s1XEtPnKTvR64aG/download'' =
             Some (Zip [(''Flywing_n20/train/train_data.npz'', Npz (example_train_npz @ extra)),
                        (''Flywing_n20/test/test_data.npz'', Npz example_test_npz)])"
    and r: "rnd ev = (\<lambda>x. x)" and g: "augmented_samples ev = (\<lambda>n. 8 * n)"
  shows "run_notebook ev example_params fresh_world =
     (Inr (),
      \<lparr>fs = [''data'' \<mapsto> Dir,
             zipPath ''n20'' \<mapsto>
               File (Zip [(''Flywing_n20/train/train_data.npz'', Npz (example_train_npz @ extra)),
                          (''Flywing_n20/test/test_data.npz'', Npz example_test_npz)]),
             train_path ''n20'' \<mapsto> File (Npz (example_train_npz @ extra)),
             test_path ''n20'' \<mapsto> File (Npz example_test_npz)],
       trace = import_events @
               [EMkdir ''data'',
                EUrlRetrieve ''https://owncloud.mpi-cbg.de/index.php/s/s1XEtPnKTvR64aG/download''
                  (zipPath ''n20''),
                EExtractAll (zipPath ''n20'') ''data''] @
               load_events ''n20'' @ after_load_events ''n20'' 31.25 100\<rparr>)"
proof -
  let ?f = "[''data'' \<mapsto> Dir,
             zipPath ''n20'' \<mapsto>
               File (Zip [(''Flywing_n20/train/train_data.npz'', Npz (example_train_npz @ extra)),
                          (''Flywing_n20/test/test_data.npz'', Npz example_test_npz)]),
             train_path ''n20'' \<mapsto> File (Npz (example_train_npz @ extra)),
             test_path ''n20'' \<mapsto> File (Npz example_test_npz)]"
  let ?d = "[EMkdir ''data'',
                EUrlRetrieve ''https://owncloud.mpi-cbg.de/index.php/s/s1XEtPnKTvR64aG/download''
                  (zipPath ''n20''),
                EExtractAll (zipPath ''n20'') ''data'']"
  have ne: "train_path ''n20'' \<noteq> test_path ''n20''"
    by (simp add: train_path_def test_path_def)
  have 1: "cell_imports fresh_world = (Inr (), fresh_world\<lparr>trace := import_events\<rparr>)"
    by (simp add: cell_imports_def emit_def fresh_world_def)
  have 2: "cell_download ev ''n20'' (fresh_world\<lparr>trace := import_events\<rparr>) =
             (Inr (), \<lparr>fs = ?f, trace = import_events @ ?d\<rparr>)"
    by (rule download_from_server [OF net])
  have 3: "cell_load_train ''n20'' \<lparr>fs = ?f, trace = import_events @ ?d\<rparr> =
             (Inr example_train_data,
              \<lparr>fs = ?f, trace = import_events @ ?d @ take 5 (load_events ''n20'')\<rparr>)"
    using load_train_example [of "\<lparr>fs = ?f, trace = import_events @ ?d\<rparr>" extra] ne
    by simp
  have 4: "cell_print_shapes \<lparr>fs = ?f, trace = import_events @ ?d @ take 5 (load_events ''n20'')\<rparr> =
             (Inr (), \<lparr>fs = ?f, trace = import_events @ ?d @ load_events ''n20''\<rparr>)"
    by (simp add: cell_print_shapes_def emit_def load_events_def)
  have 5: "cells_after_load ev example_params example_train_data
             \<lparr>fs = ?f, trace = import_events @ ?d @ load_events ''n20''\<rparr> =
             (Inr (), \<lparr>fs = ?f, trace = import_events @ ?d @ load_events ''n20'' @
                          after_load_events ''n20'' 31.25 100\<rparr>)"
    using cells_after_load_example
      [of "\<lparr>fs = ?f, trace = import_events @ ?d @ load_events ''n20''\<rparr>" ev] r g
    by simp
  have p: "noise_level example_params = ''n20''"
    by (simp add: example_params_def)
  show ?thesis
    unfolding run_notebook_def nb_then_def p
    by (simp only: nb_bind_def 1 2 3 4 5 prod.case sum.case)
qed

lemma example_run:
  "run_notebook example_env example_params fresh_world =
     (Inr (),
      \<lparr>fs = [''data'' \<mapsto> Dir,
             zipPath ''n20'' \<mapsto>
               File (Zip [(''Flywing_n20/train/train_data.npz'', Npz example_train_npz),
                          (''Flywing_n20/test/test_data.npz'', Npz example_test_npz)]),
             train_path ''n20'' \<mapsto> File (Npz example_train_npz),
             test_path ''n20'' \<mapsto> File (Npz example_test_npz)],
       trace = import_events @
               [EMkdir ''data'',
                EUrlRetrieve ''https://owncloud.mpi-cbg.de/index.php/s/s1XEtPnKTvR64aG/download''
                  (zipPath ''n20''),
                EExtractAll (zipPath ''n20'') ''data''] @
               load_events ''n20'' @ after_load_events ''n20'' 31.25 100\<rparr>)"
  using run_on_server [of example_env "[]"] by (simp add: example_env_def)

lemma example_download:
  "cell_download example_env ''n20'' (fresh_world\<lparr>trace := tr\<rparr>) =
     (Inr (),
      \<lparr>fs = [''data'' \<mapsto> Dir,
             zipPath ''n20'' \<mapsto>
               File (Zip [(''Flywing_n20/train/train_data.npz'', Npz example_train_npz),
                          (''Flywing_n20/test/test_data.npz'', Npz example_test_npz)]),
             train_path ''n20'' \<mapsto> File (Npz example_train_npz),
             test_path ''n20'' \<mapsto> File (Npz example_test_npz)],
       trace = tr @ [EMkdir ''data'',
                     EUrlRetrieve ''https://owncloud.mpi-cbg.de/index.php/s/s1XEtPnKTvR64aG/download''
                       (zipPath ''n20''),
                     EExtractAll (zipPath ''n20'') ''data'']\<rparr>)"
  by (rule download_from_server) (simp add: example_env_def)

lemma example_events:
  "events_of_run fresh_world (snd (run_notebook example_env example_params fresh_world)) =
     trace (snd (run_notebook example_env example_params fresh_world))"
  by (simp add: events_of_run_def fresh_world_def)

lemma extra_run:
  "run_notebook extra_env example_params fresh_world =
     (Inr (),
      \<lparr>fs = [''data'' \<mapsto> Dir,
             zipPath ''n20'' \<mapsto>
               File (Zip [(''Flywing_n20/train/train_data.npz'',
                             Npz (example_train_npz @
                                  [(''X_extra'', \<lparr>shape = [1], dtype = UInt8\<rparr>)])),
                          (''Flywing_n20/test/test_data.npz'', Npz example_test_npz)]),
             train_path ''n20'' \<mapsto>
               File (Npz (example_train_npz @ [(''X_extra'', \<lparr>shape = [1], dtype = UInt8\<rparr>)])),
             test_path ''n20'' \<mapsto> File (Npz example_test_npz)],
       trace = import_events @
               [EMkdir ''data'',
                EUrlRetrieve ''https://owncloud.mpi-cbg.de/index.php/s/s1XEtPnKTvR64aG/download''
                  (zipPath ''n20''),
                EExtractAll (zipPath ''n20'') ''data''] @
               load_events ''n20'' @ after_load_events ''n20'' 31.25 100\<rparr>)"
proof -
  have n: "network extra_env ''https://owncloud.mpi-cbg.de/index.php/s/s1XEtPnKTvR64aG/download'' =
             Some (Zip [(''Flywing_n20/train/train_data.npz'',
                           Npz (example_train_npz @
                                [(''X_extra'', \<lparr>shape = [1], dtype = UInt8\<rparr>)])),
                        (''Flywing_n20/test/test_data.npz'', Npz example_test_npz)])"
    by (simp add: extra_env_def)
  have r: "rnd extra_env = (\<lambda>x. x)" and g: "augmented_samples extra_env = (\<lambda>n. 8 * n)"
    by (simp_all add: extra_env_def)
  show ?thesis
    by (rule run_on_server [OF n r g])
qed

section \<open>The claims\<close>

text \<open>
  C1. For an array of training images with \<open>n_train\<close> entries along its first axis, the
  assertion of cell 6 passes exactly when the number of annotated training images lies
  between 0 and \<open>n_train\<close>, both bounds included, and it never changes the world.
  An out-of-range number ends the notebook there with an \<^verbatim>\<open>AssertionError\<close>: the cells
  from the assertion on leave the world as it was, so nothing has been zeroed out.
\<close>

theorem assert_annotated_iff:
  assumes "shape0 (train_images td) = Inr n_train"
  shows "cell_assert_annotated n td w =
           (if 0 \<le> n \<and> n \<le> real n_train then Inr () else Inl AssertionError, w) \<and>
         cell_assert_annotated 0 td w = (Inr (), w) \<and>
         cell_assert_annotated (real n_train) td w = (Inr (), w) \<and>
         (\<not> (0 \<le> number_of_annotated_training_images p \<and>
              number_of_annotated_training_images p \<le> real n_train) \<longrightarrow>
            cells_after_load ev p td w = (Inl AssertionError, w) \<and>
            zeroed_out (events_of_run w (snd (cells_after_load ev p td w))) = [])"
proof -
  have a: "cell_assert_annotated n td w =
           (if 0 \<le> n \<and> n \<le> real n_train then Inr () else Inl AssertionError, w)" for n
    using assms
    by (simp add: cell_assert_annotated_def nb_bind_def nb_lift_def nb_return_def nb_raise_def)
  have b: "cells_after_load ev p td w = (Inl AssertionError, w)"
    if "\<not> (0 \<le> number_of_annotated_training_images p \<and>
            number_of_annotated_training_images p \<le> real n_train)"
  proof -
    from that
    have "cell_assert_annotated (number_of_annotated_training_images p) td w =
            (Inl AssertionError, w)"
      by (simp only: a if_False)
    then show ?thesis
      by (simp add: cells_after_load_def nb_then_def nb_bind_def)
  qed
  have c: "cell_assert_annotated 0 td w = (Inr (), w)"
    by (simp add: a)
  have d: "cell_assert_annotated (real n_train) td w = (Inr (), w)"
    by (simp add: a)
  from b have "\<not> (0 \<le> number_of_annotated_training_images p \<and>
              number_of_annotated_training_images p \<le> real n_train) \<longrightarrow>
            cells_after_load ev p td w = (Inl AssertionError, w) \<and>
            zeroed_out (events_of_run w (snd (cells_after_load ev p td w))) = []"
    by (simp add: events_of_run_def)
  with a [of n] c d show ?thesis
    by blast
qed

theorem assert_annotated_iff_witness:
  "shape0 (train_images example_train_data) = Inr 16 \<and>
   cell_assert_annotated 5 example_train_data fresh_world = (Inr (), fresh_world) \<and>
   cell_assert_annotated 0 example_train_data fresh_world = (Inr (), fresh_world) \<and>
   cell_assert_annotated 16 example_train_data fresh_world = (Inr (), fresh_world) \<and>
   cell_assert_annotated 17 example_train_data fresh_world = (Inl AssertionError, fresh_world) \<and>
   cell_assert_annotated (- 1) example_train_data fresh_world = (Inl AssertionError, fresh_world) \<and>
   cells_after_load example_env (example_params\<lparr>number_of_annotated_training_images := 17\<rparr>)
       example_train_data fresh_world = (Inl AssertionError, fresh_world)"
proof -
  have s: "shape0 (train_images example_train_data) = Inr 16"
    by (simp add: shape0_def example_train_data_def)
  show ?thesis
    using s
      assert_annotated_iff [OF s, of 5 fresh_world
        "example_params\<lparr>number_of_annotated_training_images := 17\<rparr>" example_env]
      assert_annotated_iff [OF s, of 17 fresh_world example_params example_env]
      assert_annotated_iff [OF s, of "- 1" fresh_world example_params example_env]
    by simp
qed

text \<open>
  C2. The order stated in the overview does not hold: a run that completes plots a training
  sample before it builds the configuration, and it calls the model (threshold, prediction,
  export) after it has plotted. What holds for every complete run is this order of phases:
  import; download and unzip (only when the data folder or the archive is missing);
  loading of the training arrays; sparsification and augmentation; plotting of a sample;
  configuration; model construction and training; plotting of the history; threshold
  optimisation; loading of the test arrays; prediction; plotting of the result; export.
\<close>

theorem run_phases:
  assumes "run_notebook ev p w = (Inr (), w')"
  shows "phases (events_of_run w w') =
           Import #
           (if fs w ''data'' = Some Dir \<and> fs w (zipPath (noise_level p)) \<noteq> None then []
            else [Download]) @
           [LoadArrays, Sparsify, Plotting, Configure, Delegate, Plotting, Delegate,
            LoadArrays, Delegate, Plotting, Delegate]"
proof -
  from run_notebook_ok [OF assms] obtain pct steps url where
    "trace w' = trace w @ import_events @ download_events (fs w) (noise_level p) url @
       load_events (noise_level p) @ after_load_events (noise_level p) pct steps"
    by blast
  then have "events_of_run w w' = import_events @ download_events (fs w) (noise_level p) url @
       load_events (noise_level p) @ after_load_events (noise_level p) pct steps"
    by (rule events_of_run_append)
  then show ?thesis
    by (simp add: phases_def steps_of_events eval_nat_numeral)
qed

theorem run_phases_witness:
  "run_notebook example_env example_params fresh_world =
     (Inr (), snd (run_notebook example_env example_params fresh_world)) \<and>
   phases (trace (snd (run_notebook example_env example_params fresh_world))) =
     [Import, Download, LoadArrays, Sparsify, Plotting, Configure, Delegate, Plotting, Delegate,
      LoadArrays, Delegate, Plotting, Delegate]"
proof -
  have r: "run_notebook example_env example_params fresh_world =
     (Inr (), snd (run_notebook example_env example_params fresh_world))"
    by (simp add: example_run)
  show ?thesis
    using r run_phases [OF r] unfolding example_events
    by (simp add: fresh_world_def)
qed

text \<open>
  C2, counterexample. The run on the example data set completes; its steps are not in the
  order (a) to (g), a plot stands before the configuration, and a model call stands after
  a plot.
\<close>

theorem spec_order_counterexample:
  "fst (run_notebook example_env example_params fresh_world) = Inr () \<and>
   \<not> in_spec_order (steps_of (trace (snd (run_notebook example_env example_params fresh_world)))) \<and>
   \<not> all_before Configure Plotting
       (steps_of (trace (snd (run_notebook example_env example_params fresh_world)))) \<and>
   \<not> all_before Delegate Plotting
       (steps_of (trace (snd (run_notebook example_env example_params fresh_world))))"
  by (simp add: example_run in_spec_order_def steps_of_events eval_nat_numeral)

text \<open>
  C3. Every complete run calls the model class five times, not four: it constructs the
  model, trains it, optimises the threshold, predicts the label masks and exports the
  model, each once and in this order.
\<close>

theorem run_model_calls:
  assumes "run_notebook ev p w = (Inr (), w')"
  shows "model_calls (events_of_run w w') =
           [Construct, Train, OptimizeThresholds, PredictLabelMasks, ExportTF] \<and>
         card (set (model_calls (events_of_run w w'))) = 5"
proof -
  from run_events [OF assms]
  have "model_calls (events_of_run w w') =
          [Construct, Train, OptimizeThresholds, PredictLabelMasks, ExportTF]"
    by (auto simp: projections)
  then show ?thesis
    by simp
qed

theorem run_model_calls_witness:
  "run_notebook example_env example_params fresh_world =
     (Inr (), snd (run_notebook example_env example_params fresh_world)) \<and>
   model_calls (trace (snd (run_notebook example_env example_params fresh_world))) =
     [Construct, Train, OptimizeThresholds, PredictLabelMasks, ExportTF]"
proof -
  have r: "run_notebook example_env example_params fresh_world =
     (Inr (), snd (run_notebook example_env example_params fresh_world))"
    by (simp add: example_run)
  show ?thesis
    using r run_model_calls [OF r] unfolding example_events
    by simp
qed

text \<open>
  C3, counterexample. On the example data set the number of distinct model calls is not four.
\<close>

theorem four_model_calls_counterexample:
  "fst (run_notebook example_env example_params fresh_world) = Inr () \<and>
   card (set (model_calls (trace (snd (run_notebook example_env example_params fresh_world)))))
     \<noteq> 4"
  by (simp add: example_run projections)

text \<open>
  C4. For a noise level other than \<open>n0\<close>, \<open>n10\<close> and \<open>n20\<close> the selector only prints
  its message: it raises nothing, leaves \<^verbatim>\<open>link\<close> unbound and the file system as it is,
  and the cell goes on to the download block with \<^verbatim>\<open>link\<close> unbound.
\<close>

theorem select_link_unknown_noise_level:
  assumes "nl \<noteq> ''n0''" and "nl \<noteq> ''n10''" and "nl \<noteq> ''n20''"
  shows "select_link nl w =
           (Inr None,
            w\<lparr>trace := trace w @ [EPrint ''This noise level does not exist for this dataset.'']\<rparr>)
         \<and> cell_download ev nl w =
             nb_then mkdir_data
               (nb_then (emit [EPrint ''This noise level does not exist for this dataset.''])
                  (download_block ev None (zipPath nl))) w"
proof
  show "select_link nl w =
           (Inr None,
            w\<lparr>trace := trace w @ [EPrint ''This noise level does not exist for this dataset.'']\<rparr>)"
    using assms by (simp add: select_link_def nb_then_def nb_bind_def emit_def nb_return_def)
  have "select_link nl =
          nb_then (emit [EPrint ''This noise level does not exist for this dataset.''])
            (nb_return None)"
    using assms by (simp add: select_link_def)
  then show "cell_download ev nl w =
             nb_then mkdir_data
               (nb_then (emit [EPrint ''This noise level does not exist for this dataset.''])
                  (download_block ev None (zipPath nl))) w"
    by (simp add: cell_download_def nb_then_def nb_bind_def nb_return_def emit_def
          split: prod.splits sum.splits)
qed

theorem select_link_unknown_noise_level_witness:
  "select_link ''n5'' fresh_world =
     (Inr None,
      \<lparr>fs = Map.empty, trace = [EPrint ''This noise level does not exist for this dataset.'']\<rparr>)
   \<and> cell_download example_env ''n5'' fresh_world =
      (Inl (NameError ''link''),
       \<lparr>fs = [''data'' \<mapsto> Dir],
        trace = [EMkdir ''data'', EPrint ''This noise level does not exist for this dataset.'']\<rparr>)"
  using select_link_unknown_noise_level [of "''n5''" fresh_world example_env]
  by (simp add: fresh_world_def mkdir_data_def nb_then_def nb_bind_def emit_def
        download_block_def zipPath_def)

text \<open>
  C5. Every complete run reads exactly six keys: \<open>X_train\<close>, \<open>Y_train\<close>, \<open>X_val\<close> and
  \<open>Y_val\<close> from the training archive, then \<open>X_test\<close> and \<open>Y_test\<close> from the test
  archive. The archives it has read hold at least these arrays (the notebook does not look
  at any other array an archive holds), and the loading cell returns the training and the
  validation images as \<open>float32\<close>.
\<close>

theorem run_reads_six_keys:
  assumes "run_notebook ev p w = (Inr (), w')"
  shows "keys_read (events_of_run w w') =
           [(train_path (noise_level p), ''X_train''), (train_path (noise_level p), ''Y_train''),
            (train_path (noise_level p), ''X_val''), (train_path (noise_level p), ''Y_val''),
            (test_path (noise_level p), ''X_test''), (test_path (noise_level p), ''Y_test'')] \<and>
         (\<exists>kt ks. fs w' (train_path (noise_level p)) = Some (File (Npz kt)) \<and>
                  {''X_train'', ''Y_train'', ''X_val'', ''Y_val''} \<subseteq> fst ` set kt \<and>
                  fs w' (test_path (noise_level p)) = Some (File (Npz ks)) \<and>
                  {''X_test'', ''Y_test''} \<subseteq> fst ` set ks) \<and>
         (\<forall>w1 td w2. cell_load_train (noise_level p) w1 = (Inr td, w2) \<longrightarrow>
                     dtype (train_images td) = Float32 \<and> dtype (val_images td) = Float32)"
proof (intro conjI allI impI)
  from run_events [OF assms] obtain pct steps url where
    e: "events_of_run w w' = import_events @ download_events (fs w) (noise_level p) url @
          load_events (noise_level p) @ after_load_events (noise_level p) pct steps"
    by blast
  show "keys_read (events_of_run w w') =
           [(train_path (noise_level p), ''X_train''), (train_path (noise_level p), ''Y_train''),
            (train_path (noise_level p), ''X_val''), (train_path (noise_level p), ''Y_val''),
            (test_path (noise_level p), ''X_test''), (test_path (noise_level p), ''Y_test'')]"
    unfolding e by (simp only: projections append.simps)
  show "\<exists>kt ks. fs w' (train_path (noise_level p)) = Some (File (Npz kt)) \<and>
                  {''X_train'', ''Y_train'', ''X_val'', ''Y_val''} \<subseteq> fst ` set kt \<and>
                  fs w' (test_path (noise_level p)) = Some (File (Npz ks)) \<and>
                  {''X_test'', ''Y_test''} \<subseteq> fst ` set ks"
    by (rule run_archives [OF assms])
next
  fix w1 td w2
  assume "cell_load_train (noise_level p) w1 = (Inr td, w2)"
  then show "dtype (train_images td) = Float32" and "dtype (val_images td) = Float32"
    by (rule cell_load_train_ok(2), rule cell_load_train_ok(3))
qed

theorem run_reads_six_keys_witness:
  "run_notebook example_env example_params fresh_world =
     (Inr (), snd (run_notebook example_env example_params fresh_world)) \<and>
   keys_read (trace (snd (run_notebook example_env example_params fresh_world))) =
     [(train_path ''n20'', ''X_train''), (train_path ''n20'', ''Y_train''),
      (train_path ''n20'', ''X_val''), (train_path ''n20'', ''Y_val''),
      (test_path ''n20'', ''X_test''), (test_path ''n20'', ''Y_test'')] \<and>
   cell_load_train ''n20'' (snd (cell_download example_env ''n20'' fresh_world)) =
     (Inr example_train_data, snd (cell_load_train ''n20'' (snd (cell_download example_env ''n20'' fresh_world)))) \<and>
   dtype (train_images example_train_data) = Float32 \<and>
   dtype (val_images example_train_data) = Float32"
proof -
  have r: "run_notebook example_env example_params fresh_world =
     (Inr (), snd (run_notebook example_env example_params fresh_world))"
    by (simp add: example_run)
  have n: "noise_level example_params = ''n20''"
    by (simp add: example_params_def)
  have d: "fs (snd (cell_download example_env ''n20'' fresh_world)) (train_path ''n20'') =
             Some (File (Npz (example_train_npz @ [])))"
    using download_from_server [of example_env example_train_npz example_test_npz "[]"]
      paths_differ [of "''n20''"]
    by (simp add: example_env_def fresh_world_def)
  have l: "cell_load_train ''n20'' (snd (cell_download example_env ''n20'' fresh_world)) =
     (Inr example_train_data,
      snd (cell_load_train ''n20'' (snd (cell_download example_env ''n20'' fresh_world))))"
    by (simp add: load_train_example [OF d])
  from run_reads_six_keys [OF r] have
    k: "keys_read (trace (snd (run_notebook example_env example_params fresh_world))) =
     [(train_path ''n20'', ''X_train''), (train_path ''n20'', ''Y_train''),
      (train_path ''n20'', ''X_val''), (train_path ''n20'', ''Y_val''),
      (test_path ''n20'', ''X_test''), (test_path ''n20'', ''Y_test'')]"
    and f: "\<And>w1 td w2. cell_load_train ''n20'' w1 = (Inr td, w2) \<Longrightarrow>
              dtype (train_images td) = Float32 \<and> dtype (val_images td) = Float32"
    unfolding example_events n by blast+
  from r k l f [OF l] show ?thesis
    by blast
qed

text \<open>
  C5, counterexample. A training archive with a seventh array is read as well: the run completes on it.
\<close>

theorem archive_exactly_counterexample:
  "fst (run_notebook extra_env example_params fresh_world) = Inr () \<and>
   fs (snd (run_notebook extra_env example_params fresh_world)) (train_path ''n20'') =
     Some (File (Npz (example_train_npz @ [(''X_extra'', \<lparr>shape = [1], dtype = UInt8\<rparr>)]))) \<and>
   \<not> fst ` set (example_train_npz @ [(''X_extra'', \<lparr>shape = [1], dtype = UInt8\<rparr>)])
       \<subseteq> {''X_train'', ''Y_train'', ''X_val'', ''Y_val'', ''X_test'', ''Y_test''}"
  using paths_differ [of "''n20''"] by (simp add: extra_run)

text \<open>
  C6. Every complete run builds the configuration once, with exactly these eleven keyword
  arguments: kernel size 3, 4 output channels, relative weights 1.0, 1.0, 5.0, the computed
  steps per epoch (between 100 and 400), 200 epochs, batch normalisation on, batch size 128,
  network width 32, network depth 4, alpha 0.5, tensorboard off.
\<close>

theorem run_config:
  assumes "run_notebook ev p w = (Inr (), w')"
  shows "\<exists>steps. 100 \<le> steps \<and> steps \<le> 400 \<and>
           configs (events_of_run w w') =
             [[(''unet_kern_size'', PInt 3), (''n_channel_out'', PInt 4),
               (''relative_weights'', PList [PFloat 1.0, PFloat 1.0, PFloat 5.0]),
               (''train_steps_per_epoch'', PInt steps), (''train_epochs'', PInt 200),
               (''batch_norm'', PBool True), (''train_batch_size'', PInt 128),
               (''unet_n_first'', PInt 32), (''unet_n_depth'', PInt 4),
               (''denoiseg_alpha'', PFloat 0.5), (''train_tensorboard'', PBool False)]]"
proof -
  from run_events [OF assms] obtain n_train where
    "configs (events_of_run w w') =
       [conf_kwargs (train_steps_per_epoch ev (augmented_samples ev n_train))]"
    by (auto simp: projections)
  then show ?thesis
    using train_steps_range [of ev "augmented_samples ev n_train"]
    by (auto simp: conf_kwargs_def)
qed

theorem run_config_witness:
  "run_notebook example_env example_params fresh_world =
     (Inr (), snd (run_notebook example_env example_params fresh_world)) \<and>
   configs (trace (snd (run_notebook example_env example_params fresh_world))) =
     [[(''unet_kern_size'', PInt 3), (''n_channel_out'', PInt 4),
       (''relative_weights'', PList [PFloat 1.0, PFloat 1.0, PFloat 5.0]),
       (''train_steps_per_epoch'', PInt 100), (''train_epochs'', PInt 200),
       (''batch_norm'', PBool True), (''train_batch_size'', PInt 128),
       (''unet_n_first'', PInt 32), (''unet_n_depth'', PInt 4),
       (''denoiseg_alpha'', PFloat 0.5), (''train_tensorboard'', PBool False)]]"
proof -
  have r: "run_notebook example_env example_params fresh_world =
     (Inr (), snd (run_notebook example_env example_params fresh_world))"
    by (simp add: example_run)
  have c: "configs (trace (snd (run_notebook example_env example_params fresh_world))) =
             [conf_kwargs 100]"
    by (simp add: example_run projections)
  show ?thesis
    using r c run_config [OF r] unfolding example_events
    by (simp add: conf_kwargs_def)
qed

text \<open>
  C7. The notebook does leave files on disk: after a complete run the folder \<open>data\<close>
  exists and holds the downloaded archive and the two unpacked \<open>.npz\<close> files. The
  notebook removes no file, and of its cells only the download cell changes the file
  system (what the library writes for the model is outside the notebook).
\<close>

theorem run_leaves_files:
  assumes "run_notebook ev p w = (Inr (), w')"
  shows "fs w' ''data'' = Some Dir \<and>
         {zipPath (noise_level p), train_path (noise_level p), test_path (noise_level p)}
           \<subseteq> dom (fs w') \<and>
         dom (fs w) \<subseteq> dom (fs w') \<and>
         (\<exists>w0 w1. fs w0 = fs w \<and> cell_download ev (noise_level p) w0 = (Inr (), w1) \<and>
                  fs w' = fs w1)"
proof -
  from run_notebook_ok [OF assms] obtain w1 kt ks where
    d: "cell_download ev (noise_level p) (w\<lparr>trace := trace w @ import_events\<rparr>) = (Inr (), w1)"
    and f: "fs w' = fs w1"
    and t: "fs w1 (train_path (noise_level p)) = Some (File (Npz kt))"
           "fs w1 (test_path (noise_level p)) = Some (File (Npz ks))"
    by blast
  note d' = cell_download_ok [OF d]
  have "fs w' ''data'' = Some Dir"
    using d'(2) f by simp
  moreover have "{zipPath (noise_level p), train_path (noise_level p), test_path (noise_level p)}
           \<subseteq> dom (fs w')"
    using d'(3) t f by auto
  moreover have "dom (fs w) \<subseteq> dom (fs w')"
    using d'(4) f by auto
  moreover have "\<exists>w0 w1. fs w0 = fs w \<and> cell_download ev (noise_level p) w0 = (Inr (), w1) \<and>
                  fs w' = fs w1"
    using d f by (intro exI [of _ "w\<lparr>trace := trace w @ import_events\<rparr>"] exI [of _ w1]) simp
  ultimately show ?thesis
    by blast
qed

theorem run_leaves_files_witness:
  "run_notebook example_env example_params fresh_world =
     (Inr (), snd (run_notebook example_env example_params fresh_world)) \<and>
   fs (snd (run_notebook example_env example_params fresh_world)) ''data'' = Some Dir \<and>
   {zipPath ''n20'', train_path ''n20'', test_path ''n20''}
     \<subseteq> dom (fs (snd (run_notebook example_env example_params fresh_world)))"
proof -
  have r: "run_notebook example_env example_params fresh_world =
     (Inr (), snd (run_notebook example_env example_params fresh_world))"
    by (simp add: example_run)
  have n: "noise_level example_params = ''n20''"
    by (simp add: example_params_def)
  from run_leaves_files [OF r] r show ?thesis
    unfolding n by blast
qed

text \<open>
  C7, counterexample. Started on an empty working directory, the run on the example data set ends with the
  folder, the archive and the unpacked training file on disk.
\<close>

theorem no_files_left_counterexample:
  "dom (fs fresh_world) = {} \<and>
   fst (run_notebook example_env example_params fresh_world) = Inr () \<and>
   fs (snd (run_notebook example_env example_params fresh_world)) ''data'' = Some Dir \<and>
   fs (snd (run_notebook example_env example_params fresh_world)) (zipPath ''n20'') =
     Some (File (Zip [(''Flywing_n20/train/train_data.npz'', Npz example_train_npz),
                      (''Flywing_n20/test/test_data.npz'', Npz example_test_npz)])) \<and>
   fs (snd (run_notebook example_env example_params fresh_world)) (train_path ''n20'') =
     Some (File (Npz example_train_npz))"
proof -
  have "dom (fs fresh_world) = {}"
    by (simp add: fresh_world_def)
  then show ?thesis
    using paths_differ [of "''n20''"] zipPath_not_data [of "''n20''"] by (simp add: example_run)
qed

text \<open>
  C8. With a rounding that is monotone and exact on 0, 1 and 100 (as rounding to the
  nearest double is): when the first assertion has passed and there is at least one
  training image, the percentage is computed, lies between 0 and 100, and the second
  assertion passes.
\<close>

theorem percentage_in_range:
  assumes "mono (rnd ev)" and "rnd ev 0 = 0" and "rnd ev 1 = 1" and "rnd ev 100 = 100"
    and "cell_assert_annotated n td w = (Inr (), w)"
    and "shape0 (train_images td) = Inr n_train" and "0 < n_train"
  shows "percentage_of ev n n_train = Inr (rnd ev (rnd ev (n / real n_train) * 100)) \<and>
         0 \<le> rnd ev (rnd ev (n / real n_train) * 100) \<and>
         rnd ev (rnd ev (n / real n_train) * 100) \<le> 100 \<and>
         assert_percentage (rnd ev (rnd ev (n / real n_train) * 100)) w' = (Inr (), w')"
proof -
  from assms(5,6) have n: "0 \<le> n" "n \<le> real n_train"
    by (simp_all add: cell_assert_annotated_Inr)
  let ?q = "rnd ev (n / real n_train)"
  have "0 \<le> n / real n_train" and "n / real n_train \<le> 1"
    using n assms(7) by simp_all
  then have "rnd ev 0 \<le> ?q" and "?q \<le> rnd ev 1"
    using monoD [OF assms(1)] by blast+
  then have q: "0 \<le> ?q" "?q \<le> 1"
    using assms(2,3) by simp_all
  then have "0 \<le> ?q * 100" and "?q * 100 \<le> 100"
    by simp_all
  then have "rnd ev 0 \<le> rnd ev (?q * 100)" and "rnd ev (?q * 100) \<le> rnd ev 100"
    using monoD [OF assms(1)] by blast+
  then have "0 \<le> rnd ev (?q * 100)" and "rnd ev (?q * 100) \<le> 100"
    using assms(2,4) by simp_all
  then show ?thesis
    using assms(7) by (simp add: percentage_of_def assert_percentage_def nb_return_def)
qed

theorem percentage_in_range_witness:
  "mono (rnd example_env) \<and>
   cell_assert_annotated 5 example_train_data fresh_world = (Inr (), fresh_world) \<and>
   percentage_of example_env 5 16 = Inr 31.25 \<and>
   assert_percentage 31.25 fresh_world = (Inr (), fresh_world)"
proof -
  have m: "mono (rnd example_env)"
    by (simp add: example_env_def mono_def)
  have r: "rnd example_env 0 = 0" "rnd example_env 1 = 1" "rnd example_env 100 = 100"
    by (simp_all add: example_env_def)
  have s: "shape0 (train_images example_train_data) = Inr 16"
    by (simp add: shape0_def example_train_data_def)
  have a: "cell_assert_annotated 5 example_train_data fresh_world = (Inr (), fresh_world)"
    by (simp add: cell_assert_annotated_Inr s)
  have v: "rnd example_env (rnd example_env (5 / real 16) * 100) = 31.25"
    by (simp add: example_env_def)
  from percentage_in_range [OF m r a s, of fresh_world] m a show ?thesis
    unfolding v by simp
qed

text \<open>
  C9. The number of training steps per epoch always lies between 100 and 400. It is 100
  when the floor of \<^verbatim>\<open>X.shape[0] / 128\<close> is at most 100, and 400 when that floor is at
  least 400 (for a monotone rounding that is exact on 12927/128 and on 400, as rounding to
  the nearest double is).
\<close>

theorem train_steps_per_epoch_range:
  "100 \<le> train_steps_per_epoch ev x_len \<and> train_steps_per_epoch ev x_len \<le> 400 \<and>
   (mono (rnd ev) \<and> rnd ev (12927 / 128) = 12927 / 128 \<and> x_len div 128 \<le> 100
      \<longrightarrow> train_steps_per_epoch ev x_len = 100) \<and>
   (mono (rnd ev) \<and> rnd ev 400 = 400 \<and> 400 \<le> x_len div 128
      \<longrightarrow> train_steps_per_epoch ev x_len = 400)"
proof (intro conjI impI)
  show "100 \<le> train_steps_per_epoch ev x_len" "train_steps_per_epoch ev x_len \<le> 400"
    by (simp_all add: train_steps_per_epoch_def)
next
  assume h: "mono (rnd ev) \<and> rnd ev (12927 / 128) = 12927 / 128 \<and> x_len div 128 \<le> 100"
  then have m: "mono (rnd ev)" and f: "rnd ev (12927 / 128) = 12927 / 128"
    and d: "x_len div 128 \<le> 100"
    by simp_all
  from d have "x_len \<le> 12927" by arith
  then have "real x_len / 128 \<le> 12927 / 128" by simp
  then have "rnd ev (real x_len / 128) \<le> rnd ev (12927 / 128)"
    using m by (rule monoD [rotated])
  then have "rnd ev (real x_len / 128) < 101"
    using f by simp
  then have "py_int (rnd ev (real x_len / 128)) \<le> 100"
    by (auto simp: py_int_def floor_le_iff ceiling_le_iff)
  then show "train_steps_per_epoch ev x_len = 100"
    by (simp add: train_steps_per_epoch_def train_batch_size_def)
next
  assume h: "mono (rnd ev) \<and> rnd ev 400 = 400 \<and> 400 \<le> x_len div 128"
  then have m: "mono (rnd ev)" and f: "rnd ev 400 = 400" and d: "400 \<le> x_len div 128"
    by simp_all
  from d have "51200 \<le> x_len" by arith
  then have "400 \<le> real x_len / 128" by simp
  then have "rnd ev 400 \<le> rnd ev (real x_len / 128)"
    using m by (rule monoD [rotated])
  then have "400 \<le> py_int (rnd ev (real x_len / 128))"
    using f by (simp add: py_int_def le_floor_iff)
  then show "train_steps_per_epoch ev x_len = 400"
    by (simp add: train_steps_per_epoch_def train_batch_size_def)
qed

theorem train_steps_per_epoch_range_witness:
  "mono (rnd example_env) \<and> rnd example_env (12927 / 128) = 12927 / 128 \<and>
   rnd example_env 400 = 400 \<and>
   (128::nat) div 128 \<le> 100 \<and> train_steps_per_epoch example_env 128 = 100 \<and>
   400 \<le> (60000::nat) div 128 \<and> train_steps_per_epoch example_env 60000 = 400 \<and>
   train_steps_per_epoch example_env 20000 = 156"
proof -
  have m: "mono (rnd example_env)"
    by (simp add: example_env_def mono_def)
  have r: "rnd example_env (12927 / 128) = 12927 / 128" "rnd example_env 400 = 400"
    by (simp_all add: example_env_def)
  have d: "(128::nat) div 128 \<le> 100" "400 \<le> (60000::nat) div 128"
    by simp_all
  have e: "train_steps_per_epoch example_env 20000 = 156"
    by (simp add: train_steps_per_epoch_def train_batch_size_def py_int_def example_env_def)
  show ?thesis
    using m r d e train_steps_per_epoch_range [of example_env 128]
      train_steps_per_epoch_range [of example_env 60000]
    by simp
qed

text \<open>
  C10. When the archive \<^verbatim>\<open>data/Flywing_{noise_level}.zip\<close> exists, the download block does
  nothing: no retrieval, no extraction, the same world. After a successful run of the
  block (or of the whole cell) a second run leaves the file system unchanged, and the
  block changes the world or raises only when the archive is absent.
\<close>

theorem download_block_idempotent:
  "(fs w zp \<noteq> None \<longrightarrow> download_block ev link zp w = (Inr (), w)) \<and>
   (download_block ev link zp w = (Inr (), w1) \<longrightarrow> download_block ev link zp w1 = (Inr (), w1)) \<and>
   (download_block ev link zp w \<noteq> (Inr (), w) \<longrightarrow> fs w zp = None) \<and>
   (cell_download ev nl w = (Inr (), w1) \<longrightarrow>
      fst (cell_download ev nl w1) = Inr () \<and> fs (snd (cell_download ev nl w1)) = fs w1 \<and>
      steps_of (events_of_run w1 (snd (cell_download ev nl w1))) = [])"
proof (intro conjI impI)
  show a: "download_block ev link zp w = (Inr (), w)" if "fs w zp \<noteq> None" for w
    using that by (simp add: download_block_def)
  show "download_block ev link zp w1 = (Inr (), w1)" if "download_block ev link zp w = (Inr (), w1)"
    using download_block_ok(1) [OF that] by (intro a) auto
  show "fs w zp = None" if "download_block ev link zp w \<noteq> (Inr (), w)"
    using that a [of w] by blast
next
  assume c: "cell_download ev nl w = (Inr (), w1)"
  have d: "fs w1 ''data'' = Some Dir" and z: "fs w1 (zipPath nl) \<noteq> None"
    using cell_download_ok(2,3) [OF c] by auto
  define es where "es = (if nl = ''n0'' \<or> nl = ''n10'' \<or> nl = ''n20'' then []
      else [EPrint ''This noise level does not exist for this dataset.''])"
  have m: "mkdir_data w1 = (Inr (), w1)"
    using d by (simp add: mkdir_data_def)
  have "\<exists>l. select_link nl w1 = (Inr l, w1\<lparr>trace := trace w1 @ es\<rparr>)"
    by (simp add: es_def select_link_def nb_then_def nb_bind_def nb_return_def emit_def)
  then obtain l where s: "select_link nl w1 = (Inr l, w1\<lparr>trace := trace w1 @ es\<rparr>)" ..
  have b: "download_block ev l (zipPath nl) (w1\<lparr>trace := trace w1 @ es\<rparr>)
             = (Inr (), w1\<lparr>trace := trace w1 @ es\<rparr>)"
    using z by (simp add: download_block_def)
  have "cell_download ev nl w1 = (Inr (), w1\<lparr>trace := trace w1 @ es\<rparr>)"
    using m s b by (simp add: cell_download_def nb_then_def nb_bind_def)
  moreover have "steps_of es = []"
    by (simp add: es_def)
  ultimately
  have "\<exists>es. cell_download ev nl w1 = (Inr (), w1\<lparr>trace := trace w1 @ es\<rparr>) \<and> steps_of es = []"
    by blast
  then show "fst (cell_download ev nl w1) = Inr ()"
    and "fs (snd (cell_download ev nl w1)) = fs w1"
    and "steps_of (events_of_run w1 (snd (cell_download ev nl w1))) = []"
    by (auto simp: events_of_run_def)
qed

theorem download_block_idempotent_witness:
  "fst (cell_download example_env ''n20'' fresh_world) = Inr () \<and>
   fs (snd (cell_download example_env ''n20'' fresh_world)) (zipPath ''n20'') \<noteq> None \<and>
   download_block example_env None (zipPath ''n20'')
       (snd (cell_download example_env ''n20'' fresh_world))
     = (Inr (), snd (cell_download example_env ''n20'' fresh_world)) \<and>
   fst (cell_download example_env ''n20'' (snd (cell_download example_env ''n20'' fresh_world)))
     = Inr () \<and>
   fs (snd (cell_download example_env ''n20'' (snd (cell_download example_env ''n20'' fresh_world))))
     = fs (snd (cell_download example_env ''n20'' fresh_world)) \<and>
   download_block example_env None (zipPath ''n20'') fresh_world \<noteq> (Inr (), fresh_world) \<and>
   fs fresh_world (zipPath ''n20'') = None"
proof -
  define w1 where "w1 = snd (cell_download example_env ''n20'' fresh_world)"
  have c: "cell_download example_env ''n20'' fresh_world = (Inr (), w1)"
    unfolding w1_def using example_download [of "[]"] by (simp add: fresh_world_def)
  have z: "fs w1 (zipPath ''n20'') \<noteq> None"
    unfolding w1_def using example_download [of "[]"] by (simp add: fresh_world_def)
  have n: "download_block example_env None (zipPath ''n20'') fresh_world \<noteq> (Inr (), fresh_world)"
    by (simp add: download_block_def fresh_world_def)
  have f: "fs fresh_world (zipPath ''n20'') = None"
    by (simp add: fresh_world_def)
  note i = download_block_idempotent [of w1 "zipPath ''n20''" example_env None w1 "''n20''"]
  note j = download_block_idempotent [of fresh_world "zipPath ''n20''" example_env None w1 "''n20''"]
  have "download_block example_env None (zipPath ''n20'') w1 = (Inr (), w1)"
    using i z by blast
  moreover have "fst (cell_download example_env ''n20'' w1) = Inr ()"
    and "fs (snd (cell_download example_env ''n20'' w1)) = fs w1"
    using j c by blast+
  ultimately show ?thesis
    using c z n f unfolding w1_def [symmetric] by simp
qed

end
